theory Spec2Isabelle
  imports Complex_Main "HOL-Library.Word" "HOL-Library.Monad_Syntax"
begin

unbundle bit_operations_syntax

section \<open>Python values shared by both modules\<close>

text \<open>
  Exceptions are values. \<open>Unsupported\<close> and \<open>NoSource\<close> are the subclasses of \<open>Error\<close>
  that \<^verbatim>\<open>ast_compiler.py\<close> declares; the others are the built-in exceptions the two
  modules can meet, and \<open>ContextMismatch\<close> is the error the Inference Context reports.
\<close>

datatype pyexn =
    Error string
  | Unsupported string
  | NoSource string
  | IndentationError
  | SyntaxError
  | IndexError
  | TypeError
  | ContextMismatch
  | NoContext
  | UserException string

datatype literal = LNone | LInt int | LStr string

text \<open>
  A code object, with the fields the two modules read. \<open>co_consts\<close> holds the nested
  code objects of inner functions beside plain constants.
\<close>

datatype code =
  Code (co_argcount: int) (co_kwonlyargcount: int) (co_nlocals: int) (co_stacksize: int)
       (co_flags: int)
       (co_code: "nat list") (co_consts: "const list") (co_names: "string list")
       (co_varnames: "string list") (co_filename: string) (co_name: string)
       (co_firstlineno: int) (co_lnotab: "nat list") (co_freevars: "string list")
       (co_cellvars: "string list")
and const = ConstCode code | ConstValue literal

text \<open>
  Syntax trees: a node has a type, a name (of a function definition), a line number when
  its type carries one, its statement list \<open>body\<close>, and its other child nodes.
\<close>

datatype node_type = FunctionDef | With | OtherNode

datatype ast =
  Node (node_type: node_type) (node_name: string) (lineno: "int option")
       (body: "ast list") (fields: "ast list")

datatype module = Module (mod_body: "ast list")

datatype source = SrcText string | SrcTree module

section \<open>ast\_compiler.py\<close>

subsection \<open>The two regular expressions\<close>

definition newline :: char where
  "newline = CHR 0x0A"

definition is_alpha :: "char \<Rightarrow> bool" where
  "is_alpha c = (let n = (of_char c :: nat) in (65 \<le> n \<and> n \<le> 90) \<or> (97 \<le> n \<and> n \<le> 122))"

definition is_word :: "char \<Rightarrow> bool" where
  "is_word c = (let n = (of_char c :: nat) in is_alpha c \<or> (48 \<le> n \<and> n \<le> 57) \<or> n = 95)"

text \<open>\<open>.*\<close> from position \<open>i\<close> to position \<open>p\<close>: no newline in between.\<close>

definition dot_star :: "string \<Rightarrow> nat \<Rightarrow> nat \<Rightarrow> bool" where
  "dot_star s i p = (i \<le> p \<and> p \<le> length s \<and> newline \<notin> set (take (p - i) (drop i s)))"

text \<open>\<open>$\<close> at position \<open>p\<close>: the end of the string, or just before a final newline.\<close>

definition dollar :: "string \<Rightarrow> nat \<Rightarrow> bool" where
  "dollar s p = (p = length s \<or> (Suc p = length s \<and> s ! p = newline))"

text \<open>
  \<^verbatim>\<open>re.compile('^__.*(?<!__)$').match\<close>: two underscores, any run without newline up to
  a position where the two characters before are not both underscores and \<open>$\<close> holds.
\<close>

definition isprivate :: "string \<Rightarrow> bool" where
  "isprivate s =
     (take 2 s = ''__'' \<and>
      list_ex (\<lambda>p. dot_star s 2 p \<and> take 2 (drop (p - 2) s) \<noteq> ''__'' \<and> dollar s p)
        [2..<Suc (length s)])"

text \<open>
  \<^verbatim>\<open>re.match('^(_[A-Za-z][A-Za-z0-9_]*)__.*$', name)\<close> with group 1 ending at
  position \<open>k\<close>. The star is greedy, so the match found is the one with the largest \<open>k\<close>.
\<close>

definition prefix_match :: "string \<Rightarrow> nat \<Rightarrow> bool" where
  "prefix_match s k =
     (2 \<le> k \<and> k + 2 \<le> length s \<and> s ! 0 = CHR ''_'' \<and> is_alpha (s ! 1) \<and>
      list_all is_word (take (k - 2) (drop 2 s)) \<and>
      take 2 (drop k s) = ''__'' \<and>
      list_ex (\<lambda>p. dot_star s (k + 2) p \<and> dollar s p) [k + 2..<Suc (length s)])"

definition match_privateprefix :: "string \<Rightarrow> string option" where
  "match_privateprefix s =
     (case filter (prefix_match s) (rev [2..<Suc (length s)]) of
        [] \<Rightarrow> None
      | k # _ \<Rightarrow> Some (take k s))"

text \<open>The loop over \<open>co_names\<close> that stops at the first name that matches.\<close>

fun find_privateprefix :: "string list \<Rightarrow> string option" where
  "find_privateprefix [] = None"
| "find_privateprefix (n # ns) =
     (case match_privateprefix n of
        Some p \<Rightarrow> Some p
      | None \<Rightarrow> find_privateprefix ns)"

subsection \<open>The interpreter services the modules call\<close>

text \<open>
  Modelled from the spec: the random variable, which the module \<^verbatim>\<open>random_variables\<close>
  defines and which is not among the sources. A variable exposes a name, a realized value
  and a log-probability (a tensor, here the list of its entries, depending on the value).
\<close>

record rv =
  rv_name :: string
  rv_value :: real
  rv_logp :: "real \<Rightarrow> real list"

text \<open>Python objects passed around untyped: strings, numbers, variables.\<close>

datatype pyobj = PyStr string | PyNum real | PyRV rv

type_synonym pyargs = "pyobj list \<times> (string \<rightharpoonup> pyobj)"

text \<open>
  A call of a template function, as far as this program can observe it: it returns,
  raises, or constructs a random variable (a name, the value the collaborator samples by
  default, and its log-probability as a function of the realized value) and continues with
  the value the variable was given.
\<close>

datatype prog =
    Return
  | Raise pyexn
  | NewRV string real "real \<Rightarrow> real list" "real \<Rightarrow> prog"

text \<open>
  What Python itself supplies: \<^verbatim>\<open>inspect.getsourcelines\<close> (\<open>None\<close> when it raises
  \<^verbatim>\<open>IOError\<close>), the sum \<^verbatim>\<open>PyCF_MASK\<close> of the \<^verbatim>\<open>__future__\<close> flags, \<^verbatim>\<open>compile\<close> from
  text to a tree and from a tree to a code object, \<^verbatim>\<open>ast.fix_missing_locations\<close>, and the
  execution of a code object on arguments. \<open>autoname_visit\<close> is the visit of the
  \<^verbatim>\<open>AutoNameTransformer\<close>, which lives in \<^verbatim>\<open>random_variables\<close>.
\<close>

record pyenv =
  getsourcelines :: "code \<Rightarrow> (string list \<times> int) option"
  PyCF_MASK :: int
  compile_text :: "string \<Rightarrow> string \<Rightarrow> string \<Rightarrow> int \<Rightarrow> pyexn + module"
  compile_tree :: "module \<Rightarrow> string \<Rightarrow> string \<Rightarrow> int \<Rightarrow> pyexn + code"
  autoname_visit :: "module \<Rightarrow> pyexn + module"
  fix_missing_locations :: "module \<Rightarrow> module"
  exec_code :: "code \<Rightarrow> pyargs \<Rightarrow> prog"

subsection \<open>uncompile\<close>

text \<open>The list \<^verbatim>\<open>[source, filename, mode, flags, firstlineno, privateprefix]\<close>.\<close>

record uncompiled =
  u_source :: string
  u_filename :: string
  u_mode :: string
  u_flags :: int
  u_firstlineno :: int
  u_privateprefix :: "string option"

definition CO_NESTED :: int where
  "CO_NESTED = 16"

definition PyCF_ONLY_AST :: int where
  "PyCF_ONLY_AST = 1024"

definition uncompile :: "pyenv \<Rightarrow> code \<Rightarrow> pyexn + uncompiled" where
  "uncompile env c =
     (if (co_flags c AND CO_NESTED) \<noteq> 0 \<or> co_freevars c \<noteq> [] then
        Inl (Unsupported ''nested functions not supported'')
      else if co_name c = ''<lambda>'' then
        Inl (Unsupported ''lambda functions not supported'')
      else if co_filename c = ''<string>'' then
        Inl (Unsupported ''code without source file not supported'')
      else
        (case getsourcelines env c of
           None \<Rightarrow> Inl (NoSource ''source code not available'')
         | Some (lines, firstlineno) \<Rightarrow>
             Inr \<lparr> u_source = concat lines,
                   u_filename = co_filename c,
                   u_mode = ''exec'',
                   u_flags = co_flags c AND PyCF_MASK env,
                   u_firstlineno = firstlineno,
                   u_privateprefix = find_privateprefix (co_names c) \<rparr>))"

subsection \<open>parse\_snippet\<close>

fun incr_node :: "int \<Rightarrow> ast \<Rightarrow> ast" where
  "incr_node n (Node t nm l b f) =
     Node t nm (map_option (\<lambda>x. x + n) l) (map (incr_node n) b) (map (incr_node n) f)"

text \<open>\<^verbatim>\<open>ast.increment_lineno\<close>: every node below the module that has a line number.\<close>

definition increment_lineno :: "module \<Rightarrow> int \<Rightarrow> module" where
  "increment_lineno a n = Module (map (incr_node n) (mod_body a))"

definition parse_snippet ::
  "pyenv \<Rightarrow> string \<Rightarrow> string \<Rightarrow> string \<Rightarrow> int \<Rightarrow> int \<Rightarrow> pyexn + module" where
  "parse_snippet env src filename mode flags firstlineno =
     (case compile_text env (newline # src) filename mode (flags OR PyCF_ONLY_AST) of
        Inr a \<Rightarrow> Inr (increment_lineno a (firstlineno - 2))
      | Inl IndentationError \<Rightarrow>
          (case compile_text env (''with 0:'' @ newline # src) filename mode
                  (flags OR PyCF_ONLY_AST) of
             Inl e \<Rightarrow> Inl e
           | Inr a \<Rightarrow>
               (case mod_body a of
                  [] \<Rightarrow> Inl IndexError
                | w # _ \<Rightarrow> Inr (increment_lineno (Module (body w)) (firstlineno - 2))))
      | Inl e \<Rightarrow> Inl e)"

subsection \<open>recompile\<close>

text \<open>The \<^verbatim>\<open>for ... else\<close> loop over \<open>co_consts\<close>.\<close>

fun find_body :: "const list \<Rightarrow> string \<Rightarrow> int option \<Rightarrow> code option" where
  "find_body [] nm lno = None"
| "find_body (ConstValue v # cs) nm lno = find_body cs nm lno"
| "find_body (ConstCode c # cs) nm lno =
     (if co_name c = nm \<and> Some (co_firstlineno c) = lno then Some c
      else find_body cs nm lno)"

definition fixnames :: "string \<Rightarrow> string list \<Rightarrow> string list" where
  "fixnames privateprefix names =
     map (\<lambda>name. if isprivate name then privateprefix @ name else name) names"

text \<open>
  The constructor \<^verbatim>\<open>types.CodeType\<close> of Python 3, called with positional arguments. It
  takes argcount, kwonlyargcount, nlocals, stacksize and flags (integers), the code
  (bytes), the constants, names and varnames (tuples), the filename and name (strings),
  firstlineno (an integer), lnotab (bytes) and, optionally, freevars and cellvars
  (tuples); an argument of another type, or another number of arguments, is a
  \<^verbatim>\<open>TypeError\<close>. (From Python 3.8 on the constructor takes more arguments still.)
\<close>

datatype code_arg =
    IntArg int
  | BytesArg "nat list"
  | ConstsArg "const list"
  | TupleArg "string list"
  | StrArg string

fun as_int :: "code_arg \<Rightarrow> int option" where
  "as_int (IntArg i) = Some i"
| "as_int a = None"

fun as_bytes :: "code_arg \<Rightarrow> nat list option" where
  "as_bytes (BytesArg b) = Some b"
| "as_bytes a = None"

fun as_consts :: "code_arg \<Rightarrow> const list option" where
  "as_consts (ConstsArg t) = Some t"
| "as_consts a = None"

fun as_tuple :: "code_arg \<Rightarrow> string list option" where
  "as_tuple (TupleArg t) = Some t"
| "as_tuple a = None"

fun as_str :: "code_arg \<Rightarrow> string option" where
  "as_str (StrArg t) = Some t"
| "as_str a = None"

definition parse_code_args :: "code_arg list \<Rightarrow> code option" where
  "parse_code_args args =
     do {
       argcount \<leftarrow> as_int (args ! 0);
       kwonlyargcount \<leftarrow> as_int (args ! 1);
       nlocals \<leftarrow> as_int (args ! 2);
       stacksize \<leftarrow> as_int (args ! 3);
       flags \<leftarrow> as_int (args ! 4);
       codestring \<leftarrow> as_bytes (args ! 5);
       consts \<leftarrow> as_consts (args ! 6);
       names \<leftarrow> as_tuple (args ! 7);
       varnames \<leftarrow> as_tuple (args ! 8);
       filename \<leftarrow> as_str (args ! 9);
       name \<leftarrow> as_str (args ! 10);
       firstlineno \<leftarrow> as_int (args ! 11);
       lnotab \<leftarrow> as_bytes (args ! 12);
       freevars \<leftarrow> (if 13 < length args then as_tuple (args ! 13) else Some []);
       cellvars \<leftarrow> (if 14 < length args then as_tuple (args ! 14) else Some []);
       Some (Code argcount kwonlyargcount nlocals stacksize flags codestring consts names
               varnames filename name firstlineno lnotab freevars cellvars)
     }"

definition code_new :: "code_arg list \<Rightarrow> pyexn + code" where
  "code_new args =
     (if length args < 13 \<or> 15 < length args then Inl TypeError
      else (case parse_code_args args of
              None \<Rightarrow> Inl TypeError
            | Some c \<Rightarrow> Inr c))"

text \<open>The call \<^verbatim>\<open>code(...)\<close> of \<open>recompile\<close>, with its fourteen arguments in their order.\<close>

definition remangle :: "string \<Rightarrow> code \<Rightarrow> pyexn + code" where
  "remangle privateprefix c =
     code_new
       [IntArg (co_argcount c), IntArg (co_nlocals c), IntArg (co_stacksize c),
        IntArg (co_flags c), BytesArg (co_code c), ConstsArg (co_consts c),
        TupleArg (fixnames privateprefix (co_names c)),
        TupleArg (fixnames privateprefix (co_varnames c)),
        StrArg (co_filename c), StrArg (co_name c), IntArg (co_firstlineno c),
        BytesArg (co_lnotab c), TupleArg (co_freevars c), TupleArg (co_cellvars c)]"

text \<open>\<open>source\<close> may be text or an already parsed tree.\<close>

definition source_tree ::
  "pyenv \<Rightarrow> source \<Rightarrow> string \<Rightarrow> string \<Rightarrow> int \<Rightarrow> int \<Rightarrow> pyexn + module" where
  "source_tree env src filename mode flags firstlineno =
     (case src of
        SrcTree t \<Rightarrow> Inr t
      | SrcText s \<Rightarrow> parse_snippet env s filename mode flags firstlineno)"

definition recompile ::
  "pyenv \<Rightarrow> source \<Rightarrow> string \<Rightarrow> string \<Rightarrow> int \<Rightarrow> int \<Rightarrow> string option \<Rightarrow> pyexn + code" where
  "recompile env src filename mode flags firstlineno privateprefix =
     (case source_tree env src filename mode flags firstlineno of
        Inl e \<Rightarrow> Inl e
      | Inr a \<Rightarrow>
          (case mod_body a of
             [] \<Rightarrow> Inl IndexError
           | node # _ \<Rightarrow>
               if node_type node \<noteq> FunctionDef then Inl (Error ''Expecting function AST node'')
               else
                 (case compile_tree env a filename mode flags of
                    Inl e \<Rightarrow> Inl e
                  | Inr c0 \<Rightarrow>
                      (case find_body (co_consts c0) (node_name node) (lineno node) of
                         None \<Rightarrow> Inl (Error ''Function body code not found'')
                       | Some c \<Rightarrow>
                           (case privateprefix of
                              None \<Rightarrow> Inr c
                            | Some p \<Rightarrow> remangle p c)))))"

section \<open>\_model.py\<close>

subsection \<open>Capture contexts and the context stack\<close>

text \<open>
  Modelled from the spec: the capture contexts of the module \<^verbatim>\<open>_template_contexts\<close>, which
  is not among the sources. A context holds the variables it captured, in construction
  order; an Inference Context holds \<open>expected_vars\<close> and \<open>provided_values\<close> as well.
\<close>

datatype capture_context =
    Forward (vars: "rv list")
  | Inference (vars: "rv list") (expected_vars: "pyobj list") (provided_values: "real list")

text \<open>
  Modelled from the spec: the constructor of the Forward Context (module
  \<^verbatim>\<open>_template_contexts\<close>); a new context has captured nothing.
\<close>

definition ForwardContext :: capture_context where
  "ForwardContext = Forward []"

text \<open>
  Modelled from the spec: the constructor of the Inference Context (module
  \<^verbatim>\<open>_template_contexts\<close>), called with the provided values and \<open>expected_vars\<close>. The
  design requires validating equal length at context construction and failing fast
  otherwise, with \<open>ContextMismatch\<close>.
\<close>

definition InferenceContext :: "real list \<Rightarrow> pyobj list \<Rightarrow> pyexn + capture_context" where
  "InferenceContext tensors expected =
     (if length expected \<noteq> length tensors then Inl ContextMismatch
      else Inr (Inference [] expected tensors))"

text \<open>
  Modelled from the spec: the registration of a variable with a context (module
  \<^verbatim>\<open>_template_contexts\<close>). A Forward Context appends the variable unconditionally, with
  the value sampled by default. An Inference Context looks up the position of the
  variable's name in \<open>expected_vars\<close>; if found, the variable's realized value is the
  entry of \<open>provided_values\<close> at that position; an unexpected variable is appended
  without rebinding. An entry of \<open>expected_vars\<close> stands for a name: a string for itself,
  a variable for its name.
\<close>

fun names_var :: "string \<Rightarrow> pyobj \<Rightarrow> bool" where
  "names_var n (PyStr s) = (s = n)"
| "names_var n (PyRV v) = (rv_name v = n)"
| "names_var n (PyNum x) = False"

fun position :: "('a \<Rightarrow> bool) \<Rightarrow> 'a list \<Rightarrow> nat option" where
  "position P [] = None"
| "position P (x # xs) = (if P x then Some 0 else map_option Suc (position P xs))"

fun add_variable ::
  "capture_context \<Rightarrow> string \<Rightarrow> real \<Rightarrow> (real \<Rightarrow> real list) \<Rightarrow> pyexn + (rv \<times> capture_context)" where
  "add_variable (Forward vs) n sample logp =
     (let v = \<lparr>rv_name = n, rv_value = sample, rv_logp = logp\<rparr>
      in Inr (v, Forward (vs @ [v])))"
| "add_variable (Inference vs ev pv) n sample logp =
     (case position (names_var n) ev of
        None \<Rightarrow>
          (let v = \<lparr>rv_name = n, rv_value = sample, rv_logp = logp\<rparr>
           in Inr (v, Inference (vs @ [v]) ev pv))
      | Some i \<Rightarrow>
          if i < length pv then
            (let v = \<lparr>rv_name = n, rv_value = pv ! i, rv_logp = logp\<rparr>
             in Inr (v, Inference (vs @ [v]) ev pv))
          else Inl IndexError)"

text \<open>
  Modelled from the spec: the accessors of a variable (module \<^verbatim>\<open>random_variables\<close>) and
  the backend's reduction of a tensor to the sum of its entries.
\<close>

definition as_tensor :: "rv \<Rightarrow> real" where
  "as_tensor v = rv_value v"

definition log_prob_of :: "rv \<Rightarrow> real list" where
  "log_prob_of v = rv_logp v (rv_value v)"

definition reduce_sum :: "real list \<Rightarrow> real" where
  "reduce_sum t = sum_list t"

subsection \<open>Objects and the store\<close>

datatype ModelTemplate = ModelTemplate (func: nat)

record Model =
  template :: ModelTemplate
  template_args :: pyargs
  forward_context :: nat
  observations :: nat

text \<open>
  Objects live in a store and are named by references, since the program shares and
  mutates them: function objects (their \<^verbatim>\<open>__code__\<close>), contexts, dictionaries and Models.
  \<open>next_id\<close> is the next fresh reference. \<open>context_stack\<close> is the process-wide stack
  (top first). \<open>calls\<close> logs every call of a template function: the function object,
  the arguments and the context stack at the time of the call.
\<close>

record world =
  function_objects :: "nat \<Rightarrow> code"
  contexts :: "nat \<Rightarrow> capture_context"
  dicts :: "nat \<Rightarrow> (string \<rightharpoonup> pyobj)"
  models :: "nat \<Rightarrow> Model"
  next_id :: nat
  context_stack :: "nat list"
  calls :: "(nat \<times> pyargs \<times> nat list) list"

text \<open>
  Modelled from the spec: entering and leaving a context (module \<^verbatim>\<open>_template_contexts\<close>).
  Entering pushes the context on the stack; leaving pops it, also when the evaluation
  inside has failed.
\<close>

definition enter :: "nat \<Rightarrow> world \<Rightarrow> world" where
  "enter c w = w\<lparr>context_stack := c # context_stack w\<rparr>"

definition exit :: "world \<Rightarrow> world" where
  "exit w = w\<lparr>context_stack := tl (context_stack w)\<rparr>"

text \<open>
  Modelled from the spec: the construction of a variable (module \<^verbatim>\<open>random_variables\<close>)
  registers it with the top of the stack, and fails when the stack is empty. \<open>run\<close> is a
  call of a template function in a store.
\<close>

primrec run :: "prog \<Rightarrow> world \<Rightarrow> (pyexn + unit) \<times> world" where
  "run Return = (\<lambda>w. (Inr (), w))"
| "run (Raise e) = (\<lambda>w. (Inl e, w))"
| "run (NewRV n sample logp k) = (\<lambda>w.
     (case context_stack w of
        [] \<Rightarrow> (Inl NoContext, w)
      | c # _ \<Rightarrow>
          (case add_variable (contexts w c) n sample logp of
             Inl e \<Rightarrow> (Inl e, w)
           | Inr (v, ctx) \<Rightarrow>
               run (k (rv_value v)) (w\<lparr>contexts := (contexts w)(c := ctx)\<rparr>))))"

subsection \<open>Model\<close>

definition new_Model :: "ModelTemplate \<Rightarrow> nat \<Rightarrow> pyargs \<Rightarrow> world \<Rightarrow> nat \<times> world" where
  "new_Model t fc targs w =
     (let d = next_id w;
          w1 = w\<lparr>dicts := (dicts w)(d := Map.empty), next_id := Suc d\<rparr>;
          m = next_id w1
      in (m, w1\<lparr>models := (models w1)(m := \<lparr>template = t, template_args = targs,
                                              forward_context = fc, observations = d\<rparr>),
                next_id := Suc m\<rparr>))"

definition evaluate :: "pyenv \<Rightarrow> nat \<Rightarrow> world \<Rightarrow> (pyexn + unit) \<times> world" where
  "evaluate env self w =
     (let m = models w self;
          f = func (template m);
          w1 = w\<lparr>calls := calls w @ [(f, template_args m, context_stack w)]\<rparr>
      in run (exec_code env (function_objects w f) (template_args m)) w1)"

definition log_prob :: "pyenv \<Rightarrow> nat \<Rightarrow> real list \<Rightarrow> world \<Rightarrow> (pyexn + real) \<times> world" where
  "log_prob env self args w =
     (case InferenceContext args
             (map PyRV (vars (contexts w (forward_context (models w self))))) of
        Inl e \<Rightarrow> (Inl e, w)
      | Inr ctx \<Rightarrow>
          (let c = next_id w;
               w1 = w\<lparr>contexts := (contexts w)(c := ctx), next_id := Suc c\<rparr>;
               (r, w2) = evaluate env self (enter c w1)
           in (case r of
                 Inl e \<Rightarrow> (Inl e, exit w2)
               | Inr _ \<Rightarrow>
                   (Inr (foldl (+) 0 (map (\<lambda>var. reduce_sum (log_prob_of var))
                                         (vars (contexts w2 c)))),
                    exit w2))))"

definition make_log_prob_function ::
  "pyenv \<Rightarrow> nat \<Rightarrow> (real list \<Rightarrow> world \<Rightarrow> (pyexn + real) \<times> world)" where
  "make_log_prob_function env self = log_prob env self"

definition forward_sample ::
  "nat \<Rightarrow> pyobj list \<Rightarrow> (string \<rightharpoonup> pyobj) \<Rightarrow> world \<Rightarrow> (string \<rightharpoonup> real) \<times> world" where
  "forward_sample self args kwargs w =
     (let c = forward_context (models w self);
          w1 = enter c w;
          samples = foldl (\<lambda>d var. d(rv_name var \<mapsto> as_tensor var)) Map.empty
                      (vars (contexts w1 c))
      in (samples, exit w1))"

definition observe :: "nat \<Rightarrow> (string \<rightharpoonup> pyobj) \<Rightarrow> world \<Rightarrow> nat \<times> world" where
  "observe self kwargs w =
     (let model = next_id w;
          w1 = w\<lparr>models := (models w)(model := models w self), next_id := Suc model\<rparr>;
          d = observations (models w1 model)
      in (model, w1\<lparr>dicts := (dicts w1)(d := dicts w1 d ++ kwargs)\<rparr>))"

subsection \<open>ModelTemplate and the decorator\<close>

definition configure ::
  "pyenv \<Rightarrow> ModelTemplate \<Rightarrow> pyobj list \<Rightarrow> (string \<rightharpoonup> pyobj) \<Rightarrow> world
     \<Rightarrow> (pyexn + nat) \<times> world" where
  "configure env self args kwargs w =
     (let c = next_id w;
          w1 = enter c (w\<lparr>contexts := (contexts w)(c := ForwardContext), next_id := Suc c\<rparr>);
          (model, w2) = new_Model self c (args, kwargs) w1;
          (r, w3) = evaluate env model w2
      in (case r of
            Inl e \<Rightarrow> (Inl e, exit w3)
          | Inr _ \<Rightarrow> (Inr model, exit w3)))"

text \<open>
  \<open>wrap\<close> of \<^verbatim>\<open>model(auto_name)\<close>, applied to the function object \<open>f\<close>. The
  assignment \<^verbatim>\<open>unc[0] = tree\<close> makes the tree the first argument of \<open>recompile\<close>.
\<close>

definition wrap :: "pyenv \<Rightarrow> bool \<Rightarrow> nat \<Rightarrow> world \<Rightarrow> (pyexn + ModelTemplate) \<times> world" where
  "wrap env auto_name f w =
     (if auto_name then
        (case uncompile env (function_objects w f) of
           Inl e \<Rightarrow> (Inl e, w)
         | Inr unc \<Rightarrow>
             (case parse_snippet env (u_source unc) (u_filename unc) (u_mode unc)
                     (u_flags unc) (u_firstlineno unc) of
                Inl e \<Rightarrow> (Inl e, w)
              | Inr tree \<Rightarrow>
                  (case autoname_visit env tree of
                     Inl e \<Rightarrow> (Inl e, w)
                   | Inr tree1 \<Rightarrow>
                       (case recompile env (SrcTree (fix_missing_locations env tree1))
                               (u_filename unc) (u_mode unc) (u_flags unc)
                               (u_firstlineno unc) (u_privateprefix unc) of
                          Inl e \<Rightarrow> (Inl e, w)
                        | Inr c \<Rightarrow>
                            (Inr (ModelTemplate f),
                             w\<lparr>function_objects := (function_objects w)(f := c)\<rparr>)))))
      else (Inr (ModelTemplate f), w))"

definition model :: "pyenv \<Rightarrow> bool \<Rightarrow> (nat \<Rightarrow> world \<Rightarrow> (pyexn + ModelTemplate) \<times> world)" where
  "model env auto_name = wrap env auto_name"

section \<open>Notions used to state the properties\<close>

text \<open>An identifier that begins with two underscores, and one that ends with two.\<close>

definition begins_two_underscores :: "string \<Rightarrow> bool" where
  "begins_two_underscores s = (take 2 s = ''__'')"

definition ends_two_underscores :: "string \<Rightarrow> bool" where
  "ends_two_underscores s = (2 \<le> length s \<and> drop (length s - 2) s = ''__'')"

text \<open>The re-mangling in the words of the specification.\<close>

definition mangle :: "string \<Rightarrow> string \<Rightarrow> string" where
  "mangle privateprefix name =
     (if begins_two_underscores name \<and> \<not> ends_two_underscores name then privateprefix @ name
      else name)"

text \<open>The line numbers of a tree in preorder, and a tree without its line numbers.\<close>

fun node_linenos :: "ast \<Rightarrow> int list" where
  "node_linenos (Node t nm l b f) =
     (case l of None \<Rightarrow> [] | Some x \<Rightarrow> [x]) @ concat (map node_linenos b)
       @ concat (map node_linenos f)"

definition module_linenos :: "module \<Rightarrow> int list" where
  "module_linenos a = concat (map node_linenos (mod_body a))"

fun strip_lineno :: "ast \<Rightarrow> ast" where
  "strip_lineno (Node t nm l b f) = Node t nm None (map strip_lineno b) (map strip_lineno f)"

text \<open>
  What a template function does when the top of the stack is a Forward Context: how it
  ends, and the variables it constructs, each with the value sampled by default.
\<close>

primrec fwd_result :: "prog \<Rightarrow> pyexn + unit" where
  "fwd_result Return = Inr ()"
| "fwd_result (Raise e) = Inl e"
| "fwd_result (NewRV n sample logp k) = fwd_result (k sample)"

primrec fwd_vars :: "prog \<Rightarrow> rv list" where
  "fwd_vars Return = []"
| "fwd_vars (Raise e) = []"
| "fwd_vars (NewRV n sample logp k) =
     \<lparr>rv_name = n, rv_value = sample, rv_logp = logp\<rparr> # fwd_vars (k sample)"

text \<open>
  The same under an Inference Context with the given \<open>expected_vars\<close> and
  \<open>provided_values\<close>: an expected variable takes the provided value at its position.
\<close>

definition bound_value :: "pyobj list \<Rightarrow> real list \<Rightarrow> string \<Rightarrow> real \<Rightarrow> real" where
  "bound_value ev pv n sample =
     (case position (names_var n) ev of None \<Rightarrow> sample | Some i \<Rightarrow> pv ! i)"

primrec inf_result :: "pyobj list \<Rightarrow> real list \<Rightarrow> prog \<Rightarrow> pyexn + unit" where
  "inf_result ev pv Return = Inr ()"
| "inf_result ev pv (Raise e) = Inl e"
| "inf_result ev pv (NewRV n sample logp k) =
     inf_result ev pv (k (bound_value ev pv n sample))"

primrec inf_vars :: "pyobj list \<Rightarrow> real list \<Rightarrow> prog \<Rightarrow> rv list" where
  "inf_vars ev pv Return = []"
| "inf_vars ev pv (Raise e) = []"
| "inf_vars ev pv (NewRV n sample logp k) =
     \<lparr>rv_name = n, rv_value = bound_value ev pv n sample, rv_logp = logp\<rparr>
       # inf_vars ev pv (k (bound_value ev pv n sample))"

text \<open>
  For a Model \<open>self\<close> in the store \<open>w\<close>: the variables its Forward Context holds, and
  the run of its template function on its saved arguments.
\<close>

definition forward_vars :: "world \<Rightarrow> nat \<Rightarrow> rv list" where
  "forward_vars w self = vars (contexts w (forward_context (models w self)))"

definition template_run :: "pyenv \<Rightarrow> world \<Rightarrow> nat \<Rightarrow> prog" where
  "template_run env w self =
     exec_code env (function_objects w (func (template (models w self))))
       (template_args (models w self))"

section \<open>A small environment for concrete runs\<close>

text \<open>
  A function \<^verbatim>\<open>f\<close> defined on lines 10 and 11 of \<^verbatim>\<open>m.py\<close>, its code object, the code
  object compiled from its transformed tree inside the code object of the statement that
  defines it, the code object of a method of a class \<^verbatim>\<open>A\<close> that refers to \<^verbatim>\<open>self.__z\<close>, a
  lambda, a function whose file is gone, and an interpreter that knows this one file. Running \<^verbatim>\<open>f\<close> constructs the variables \<^verbatim>\<open>a\<close> and
  \<^verbatim>\<open>b\<close>.
\<close>

definition example_body :: code where
  "example_body =
     Code 1 0 2 3 67 [100, 0, 83, 0] [ConstValue LNone] [''__x'', ''__init__'', ''y'']
          [''self'', ''__v'', ''___''] ''m.py'' ''f'' 10 [] [] []"

definition example_recompiled :: code where
  "example_recompiled =
     Code 1 0 2 3 67 [100, 1, 83, 0] [ConstValue LNone, ConstValue (LStr ''a'')]
          [''__x'', ''__init__'', ''y''] [''self'', ''__v'', ''___''] ''m.py'' ''f'' 10 [] [] []"

definition example_unit :: code where
  "example_unit =
     Code 0 0 0 1 64 [] [ConstValue (LStr ''f''), ConstCode example_recompiled] [''f''] []
          ''m.py'' ''<module>'' 10 [] [] []"

definition example_method :: code where
  "example_method =
     Code 1 0 2 3 67 [100, 0, 83, 0] [ConstValue LNone] [''_A__z'', ''y'']
          [''self''] ''m.py'' ''f'' 10 [] [] []"

definition example_lambda :: code where
  "example_lambda =
     Code 0 0 0 1 67 [] [ConstValue LNone] [] [] ''<string>'' ''<lambda>'' 1 [] [] []"

definition example_nosource :: code where
  "example_nosource =
     Code 0 0 0 1 67 [] [ConstValue LNone] [] [] ''gone.py'' ''h'' 1 [] [] []"

definition example_source :: string where
  "example_source = ''def f(self):'' @ [newline] @ ''    pass'' @ [newline]"

definition example_def :: ast where
  "example_def = Node FunctionDef ''f'' (Some 2) [Node OtherNode [] (Some 3) [] []] []"

definition example_tree :: module where
  "example_tree =
     Module [Node FunctionDef ''f'' (Some 10) [Node OtherNode [] (Some 11) [] []] []]"

definition logp_a :: "real \<Rightarrow> real list" where
  "logp_a x = [- x]"

definition logp_b :: "real \<Rightarrow> real list" where
  "logp_b x = [x, x + 1]"

definition example_prog :: prog where
  "example_prog = NewRV ''a'' 1 logp_a (\<lambda>a. NewRV ''b'' 2 logp_b (\<lambda>b. Return))"

definition example_env :: pyenv where
  "example_env =
     \<lparr> getsourcelines = (\<lambda>c. if co_filename c = ''m.py''
                                then Some ([''def f(self):'' @ [newline],
                                            ''    pass'' @ [newline]], 10)
                                else None),
       PyCF_MASK = 0,
       compile_text = (\<lambda>text filename mode flags.
          if take 2 text = [newline, CHR '' ''] then Inl IndentationError
          else if take 8 text = ''with 0:'' @ [newline]
               then Inr (Module [Node With [] (Some 1) [example_def] []])
          else Inr (Module [example_def])),
       compile_tree = (\<lambda>a filename mode flags. Inr example_unit),
       autoname_visit = Inr,
       fix_missing_locations = id,
       exec_code = (\<lambda>c args. if co_name c = ''f'' then example_prog else Return) \<rparr>"

text \<open>
  A store with three function objects (\<^verbatim>\<open>f\<close>, the lambda, the function without source),
  and the store after \<^verbatim>\<open>configure()\<close> of the template of \<^verbatim>\<open>f\<close>: the Forward Context
  is object 3, the observation dictionary object 4 and the Model object 5.
\<close>

definition example_world :: world where
  "example_world =
     \<lparr> function_objects = (\<lambda>i. if i = 0 then example_body
                                 else if i = 1 then example_lambda else example_nosource),
       contexts = (\<lambda>i. ForwardContext),
       dicts = (\<lambda>i. Map.empty),
       models = (\<lambda>i. \<lparr>template = ModelTemplate 0, template_args = ([], Map.empty),
                       forward_context = 0, observations = 0\<rparr>),
       next_id = 3,
       context_stack = [],
       calls = [] \<rparr>"

definition example_configured :: world where
  "example_configured = snd (configure example_env (ModelTemplate 0) [] Map.empty example_world)"

definition var_a :: rv where
  "var_a = \<lparr>rv_name = ''a'', rv_value = 1, rv_logp = logp_a\<rparr>"

definition var_b :: rv where
  "var_b = \<lparr>rv_name = ''b'', rv_value = 2, rv_logp = logp_b\<rparr>"

section \<open>Properties of ast\_compiler.py\<close>

subsection \<open>recompile: the failures\<close>

lemma find_body_None:
  "find_body cs nm l = None \<longleftrightarrow>
     (\<forall>c. ConstCode c \<in> set cs \<longrightarrow> \<not> (co_name c = nm \<and> Some (co_firstlineno c) = l))"
  by (induction cs nm l rule: find_body.induct) auto

text \<open>
  C6. When the tree's first statement is a function definition and the compiled unit has
  no inner code object whose name and first line are those of that definition,
  \<open>recompile\<close> raises \<open>Error\<close> with the message "Function body code not found" and
  returns no code object; when the first statement is not a function definition it raises
  \<open>Error\<close> with the message "Expecting function AST node".
\<close>

theorem recompile_fails_explicitly:
  "(source_tree env src filename mode flags firstlineno = Inr a \<and> mod_body a = node # rest \<and>
    node_type node = FunctionDef \<and> compile_tree env a filename mode flags = Inr c0 \<and>
    (\<forall>c. ConstCode c \<in> set (co_consts c0) \<longrightarrow>
       \<not> (co_name c = node_name node \<and> Some (co_firstlineno c) = lineno node))
    \<longrightarrow> recompile env src filename mode flags firstlineno privateprefix
          = Inl (Error ''Function body code not found''))
   \<and>
   (source_tree env src filename mode flags firstlineno = Inr a \<and> mod_body a = node # rest \<and>
    node_type node \<noteq> FunctionDef
    \<longrightarrow> recompile env src filename mode flags firstlineno privateprefix
          = Inl (Error ''Expecting function AST node''))"
proof (intro conjI impI)
  assume h: "source_tree env src filename mode flags firstlineno = Inr a \<and> mod_body a = node # rest \<and>
    node_type node = FunctionDef \<and> compile_tree env a filename mode flags = Inr c0 \<and>
    (\<forall>c. ConstCode c \<in> set (co_consts c0) \<longrightarrow>
       \<not> (co_name c = node_name node \<and> Some (co_firstlineno c) = lineno node))"
  then have "find_body (co_consts c0) (node_name node) (lineno node) = None"
    by (simp add: find_body_None)
  with h show "recompile env src filename mode flags firstlineno privateprefix
          = Inl (Error ''Function body code not found'')"
    by (simp add: recompile_def)
next
  assume "source_tree env src filename mode flags firstlineno = Inr a \<and> mod_body a = node # rest \<and>
    node_type node \<noteq> FunctionDef"
  then show "recompile env src filename mode flags firstlineno privateprefix
          = Inl (Error ''Expecting function AST node'')"
    by (simp add: recompile_def)
qed

theorem recompile_fails_explicitly_witness:
  "recompile example_env (SrcTree (Module [Node FunctionDef ''g'' (Some 10) [] []]))
     ''m.py'' ''exec'' 0 10 None
     = Inl (Error ''Function body code not found'')
   \<and> recompile example_env (SrcTree (Module [Node OtherNode [] (Some 10) [] []]))
     ''m.py'' ''exec'' 0 10 None
     = Inl (Error ''Expecting function AST node'')"
proof -
  have a: "\<forall>c. ConstCode c \<in> set (co_consts example_unit) \<longrightarrow>
       \<not> (co_name c = ''g'' \<and> Some (co_firstlineno c) = Some (10::int))"
    by (simp add: example_unit_def example_recompiled_def)
  have e: "compile_tree example_env (Module [Node FunctionDef ''g'' (Some 10) [] []])
             ''m.py'' ''exec'' 0 = Inr example_unit"
    by (simp add: example_env_def)
  show ?thesis
    using recompile_fails_explicitly [of example_env
        "SrcTree (Module [Node FunctionDef ''g'' (Some 10) [] []])"
        "''m.py''" "''exec''" 0 10 "Module [Node FunctionDef ''g'' (Some 10) [] []]"
        "Node FunctionDef ''g'' (Some 10) [] []" "[]" example_unit None]
      recompile_fails_explicitly [of example_env
        "SrcTree (Module [Node OtherNode [] (Some 10) [] []])"
        "''m.py''" "''exec''" 0 10 "Module [Node OtherNode [] (Some 10) [] []]"
        "Node OtherNode [] (Some 10) [] []" "[]" example_unit None]
      a e
    by (simp add: source_tree_def)
qed

subsection \<open>recompile: re-mangling private names\<close>

lemma dollar_no_newline: "newline \<notin> set s \<Longrightarrow> dollar s p \<longleftrightarrow> p = length s"
  by (metis dollar_def lessI nth_mem)

lemma dot_star_no_newline:
  "newline \<notin> set s \<Longrightarrow> dot_star s i p \<longleftrightarrow> i \<le> p \<and> p \<le> length s"
  by (auto simp: dot_star_def dest: in_set_takeD in_set_dropD)

text \<open>On a name without a newline the regular expression is the test of the specification.\<close>

lemma isprivate_iff:
  assumes "newline \<notin> set s"
  shows "isprivate s \<longleftrightarrow> begins_two_underscores s \<and> \<not> ends_two_underscores s"
proof (cases "take 2 s = ''__''")
  case False
  then show ?thesis by (simp add: isprivate_def begins_two_underscores_def)
next
  case True
  then have len: "2 \<le> length s"
    by (metis length_take min.cobounded1 length_Cons list.size(3) numeral_2_eq_2)
  have "isprivate s \<longleftrightarrow> take 2 (drop (length s - 2) s) \<noteq> ''__''"
    using True len assms
    by (auto simp: isprivate_def list_ex_iff dollar_no_newline dot_star_no_newline)
  also have "take 2 (drop (length s - 2) s) = drop (length s - 2) s"
    using len by simp
  finally show ?thesis
    using True len by (simp add: begins_two_underscores_def ends_two_underscores_def)
qed

lemma fixnames_mangle:
  "\<forall>n\<in>set names. newline \<notin> set n \<Longrightarrow> fixnames p names = map (mangle p) names"
  by (simp add: fixnames_def mangle_def isprivate_iff)

text \<open>
  The constructor accepts the call that names \<open>kwonlyargcount\<close> in second place, and
  rejects the fourteen arguments of \<open>recompile\<close>: its fifth argument, where the flags
  are expected, is the code.
\<close>

lemma code_new_accepts:
  "code_new [IntArg a, IntArg k, IntArg n, IntArg st, IntArg fl, BytesArg b, ConstsArg cs,
             TupleArg ns, TupleArg vs, StrArg fn, StrArg nm, IntArg l, BytesArg lt,
             TupleArg fv, TupleArg cv]
     = Inr (Code a k n st fl b cs ns vs fn nm l lt fv cv)"
  by (simp add: code_new_def parse_code_args_def)

lemma remangle_raises: "remangle privateprefix c = Inl TypeError"
  by (simp add: remangle_def code_new_def parse_code_args_def)

lemma recompile_prefix_raises:
  "recompile env src filename mode flags firstlineno None = Inr c \<Longrightarrow>
   recompile env src filename mode flags firstlineno (Some p) = Inl TypeError"
  by (auto simp: recompile_def remangle_raises
        split: sum.splits list.splits if_splits option.splits)

lemma example_recompile:
  "recompile example_env (SrcTree example_tree) ''m.py'' ''exec'' 0 10 None
     = Inr example_recompiled"
  by (simp add: recompile_def source_tree_def example_env_def example_unit_def
        example_recompiled_def example_tree_def)

lemma example_uncompile_method:
  "uncompile example_env example_method =
     Inr \<lparr> u_source = example_source,
           u_filename = ''m.py'', u_mode = ''exec'', u_flags = 0, u_firstlineno = 10,
           u_privateprefix = Some ''_A'' \<rparr>"
  by (simp add: uncompile_def example_env_def example_method_def CO_NESTED_def
        example_source_def match_privateprefix_def prefix_match_def is_alpha_def is_word_def
        dot_star_def dollar_def newline_def upt_rec)

text \<open>
  C7. For the method of class \<^verbatim>\<open>A\<close> that refers to \<^verbatim>\<open>self.__z\<close>, \<open>uncompile\<close> records the
  prefix \<^verbatim>\<open>_A\<close> (lemma \<open>example_uncompile_method\<close>). Without a prefix \<open>recompile\<close>
  finds and returns the function body code of the tree; with the prefix \<^verbatim>\<open>_A\<close> it
  computes the re-mangled names and then raises \<open>TypeError\<close> in the call of the code
  constructor: no code object is returned.
\<close>

theorem recompile_prefix_raises_TypeError:
  "recompile example_env (SrcTree example_tree) ''m.py'' ''exec'' 0 10 None
       = Inr example_recompiled
   \<and> fixnames ''_A'' (co_names example_recompiled) = [''_A__x'', ''__init__'', ''y'']
   \<and> recompile example_env (SrcTree example_tree) ''m.py'' ''exec'' 0 10 (Some ''_A'')
       = Inl TypeError"
proof -
  have "\<forall>n\<in>set (co_names example_recompiled). newline \<notin> set n"
    by (simp add: example_recompiled_def newline_def)
  then have "fixnames ''_A'' (co_names example_recompiled)
               = map (mangle ''_A'') (co_names example_recompiled)"
    by (rule fixnames_mangle)
  then have "fixnames ''_A'' (co_names example_recompiled) = [''_A__x'', ''__init__'', ''y'']"
    by (simp add: example_recompiled_def mangle_def begins_two_underscores_def
          ends_two_underscores_def)
  then show ?thesis
    using example_recompile recompile_prefix_raises [OF example_recompile, of "''_A''"]
    by simp
qed

subsection \<open>parse\_snippet\<close>

lemma node_linenos_incr:
  "node_linenos (incr_node n t) = map (\<lambda>l. l + n) (node_linenos t)"
  by (induction t) (simp add: map_concat split: option.splits cong: map_cong)

lemma strip_incr: "strip_lineno (incr_node n t) = strip_lineno t"
  by (induction t) (simp cong: map_cong)

lemma increment_lineno_linenos:
  "module_linenos (increment_lineno a n) = map (\<lambda>l. l + n) (module_linenos a)"
  by (simp add: module_linenos_def increment_lineno_def map_concat node_linenos_incr comp_def)

lemma increment_lineno_strip:
  "map strip_lineno (mod_body (increment_lineno a n)) = map strip_lineno (mod_body a)"
  by (simp add: increment_lineno_def strip_incr comp_def)

text \<open>
  C8. The text handed to the parser is the snippet after one extra line, so a node on line
  \<open>l\<close> of that text is on line \<open>l - 1\<close> of the snippet, and \<open>parse_snippet\<close> gives it the
  line \<open>firstlineno + (l - 1) - 1\<close>, its line in the file when the snippet starts at
  line \<open>firstlineno\<close>; the tree is otherwise the parser's. When the direct parse raises an
  indentation error, the snippet is parsed under a \<^verbatim>\<open>with 0:\<close> line, and the body of the
  tree returned consists of the statements inside that wrapper, shifted the same way: the
  wrapper node is not part of it.
\<close>

theorem parse_snippet_shifts:
  "(compile_text env (newline # src) filename mode (flags OR PyCF_ONLY_AST) = Inr a \<longrightarrow>
      (\<exists>r. parse_snippet env src filename mode flags firstlineno = Inr r \<and>
           map strip_lineno (mod_body r) = map strip_lineno (mod_body a) \<and>
           module_linenos r = map (\<lambda>l. firstlineno + (l - 1) - 1) (module_linenos a)))
   \<and>
   (compile_text env (newline # src) filename mode (flags OR PyCF_ONLY_AST)
      = Inl IndentationError \<and>
    compile_text env (''with 0:'' @ newline # src) filename mode (flags OR PyCF_ONLY_AST)
      = Inr (Module (wrapper # rest)) \<longrightarrow>
      (\<exists>r. parse_snippet env src filename mode flags firstlineno = Inr r \<and>
           map strip_lineno (mod_body r) = map strip_lineno (body wrapper) \<and>
           module_linenos r = map (\<lambda>l. firstlineno + (l - 1) - 1)
                                (concat (map node_linenos (body wrapper)))))"
proof (intro conjI impI)
  have eq: "(\<lambda>l. l + (firstlineno - 2)) = (\<lambda>l. firstlineno + (l - 1) - 1)"
    by (rule ext) simp
  {
    assume "compile_text env (newline # src) filename mode (flags OR PyCF_ONLY_AST) = Inr a"
    then have "parse_snippet env src filename mode flags firstlineno
                 = Inr (increment_lineno a (firstlineno - 2))"
      by (simp add: parse_snippet_def)
    then show "\<exists>r. parse_snippet env src filename mode flags firstlineno = Inr r \<and>
           map strip_lineno (mod_body r) = map strip_lineno (mod_body a) \<and>
           module_linenos r = map (\<lambda>l. firstlineno + (l - 1) - 1) (module_linenos a)"
      using increment_lineno_linenos [of a "firstlineno - 2"]
        increment_lineno_strip [of a "firstlineno - 2"]
      by (simp add: eq)
  }
  {
    assume "compile_text env (newline # src) filename mode (flags OR PyCF_ONLY_AST)
        = Inl IndentationError \<and>
      compile_text env (''with 0:'' @ newline # src) filename mode (flags OR PyCF_ONLY_AST)
        = Inr (Module (wrapper # rest))"
    then have "parse_snippet env src filename mode flags firstlineno
                 = Inr (increment_lineno (Module (body wrapper)) (firstlineno - 2))"
      by (simp add: parse_snippet_def)
    then show "\<exists>r. parse_snippet env src filename mode flags firstlineno = Inr r \<and>
           map strip_lineno (mod_body r) = map strip_lineno (body wrapper) \<and>
           module_linenos r = map (\<lambda>l. firstlineno + (l - 1) - 1)
                                (concat (map node_linenos (body wrapper)))"
      using increment_lineno_linenos [of "Module (body wrapper)" "firstlineno - 2"]
        increment_lineno_strip [of "Module (body wrapper)" "firstlineno - 2"]
      by (simp add: eq module_linenos_def)
  }
qed

theorem parse_snippet_shifts_witness:
  "(\<exists>r. parse_snippet example_env ''def f(self):'' ''m.py'' ''exec'' 0 10 = Inr r \<and>
        map strip_lineno (mod_body r) = [strip_lineno example_def] \<and>
        module_linenos r = [10, 11])
   \<and>
   (\<exists>r. parse_snippet example_env '' def f(self):'' ''m.py'' ''exec'' 0 10 = Inr r \<and>
        map strip_lineno (mod_body r) = [strip_lineno example_def] \<and>
        module_linenos r = [10, 11])"
proof -
  have 1: "compile_text example_env (newline # ''def f(self):'') ''m.py'' ''exec''
             (0 OR PyCF_ONLY_AST) = Inr (Module [example_def])"
    by (simp add: example_env_def newline_def)
  have 2: "compile_text example_env (newline # '' def f(self):'') ''m.py'' ''exec''
             (0 OR PyCF_ONLY_AST) = Inl IndentationError"
    by (simp add: example_env_def)
  have 3: "compile_text example_env (''with 0:'' @ newline # '' def f(self):'') ''m.py''
             ''exec'' (0 OR PyCF_ONLY_AST)
           = Inr (Module (Node With [] (Some 1) [example_def] [] # []))"
    by (simp add: example_env_def newline_def)
  have l: "module_linenos (Module [example_def]) = [2, 3]"
    by (simp add: module_linenos_def example_def_def)
  show ?thesis
    using parse_snippet_shifts [of example_env "''def f(self):''" "''m.py''" "''exec''" 0
        "Module [example_def]" 10 "Node With [] (Some 1) [example_def] []" "[]"]
      parse_snippet_shifts [of example_env "'' def f(self):''" "''m.py''" "''exec''" 0
        "Module [example_def]" 10 "Node With [] (Some 1) [example_def] []" "[]"]
      1 2 3 l
    by (simp add: module_linenos_def)
qed


section \<open>Properties of the decorator\<close>

lemma wrap_failure_frame:
  "fst (wrap env auto_name f w) = Inl e \<Longrightarrow> snd (wrap env auto_name f w) = w"
  by (auto simp: wrap_def split: if_splits sum.splits)

lemma example_uncompile:
  "uncompile example_env example_body =
     Inr \<lparr> u_source = example_source,
           u_filename = ''m.py'', u_mode = ''exec'', u_flags = 0, u_firstlineno = 10,
           u_privateprefix = None \<rparr>"
  by (simp add: uncompile_def example_env_def example_body_def CO_NESTED_def example_source_def
       match_privateprefix_def prefix_match_def is_alpha_def is_word_def dot_star_def
       dollar_def newline_def upt_rec)

lemma example_parse:
  "parse_snippet example_env example_source ''m.py'' ''exec'' 0 10 = Inr example_tree"
  by (simp add: parse_snippet_def example_env_def example_def_def increment_lineno_def
        newline_def example_source_def example_tree_def)

lemma example_wrap:
  "wrap example_env True 0 example_world =
     (Inr (ModelTemplate 0),
      example_world\<lparr>function_objects :=
         (function_objects example_world)(0 := example_recompiled)\<rparr>)"
proof -
  have f: "function_objects example_world 0 = example_body"
    by (simp add: example_world_def)
  have v: "autoname_visit example_env example_tree = Inr example_tree"
    "fix_missing_locations example_env example_tree = example_tree"
    by (simp_all add: example_env_def)
  show ?thesis
    by (simp add: wrap_def f example_uncompile example_parse v example_recompile)
qed

text \<open>
  C5. Applying the decorator with \<open>auto_name\<close> to a function that is nested or closes
  over variables, that is a lambda, or whose code has no source file fails with
  \<open>Unsupported\<close>. When the source lines cannot be read it fails with \<open>Unsupported\<close> (one
  of the earlier tests applies) or with \<open>NoSource\<close>. Whenever it fails, the store is
  unchanged, and with it the code object of the function.
\<close>

theorem wrap_rejects_unsupported:
  "((co_flags (function_objects w f) AND CO_NESTED) \<noteq> 0 \<or>
    co_freevars (function_objects w f) \<noteq> [] \<or>
    co_name (function_objects w f) = ''<lambda>'' \<or>
    co_filename (function_objects w f) = ''<string>''
      \<longrightarrow> (\<exists>msg. wrap env True f w = (Inl (Unsupported msg), w)))
   \<and>
   (getsourcelines env (function_objects w f) = None
      \<longrightarrow> (\<exists>msg. wrap env True f w = (Inl (Unsupported msg), w)) \<or>
          wrap env True f w = (Inl (NoSource ''source code not available''), w))
   \<and>
   (\<forall>e. fst (wrap env True f w) = Inl e \<longrightarrow>
        snd (wrap env True f w) = w \<and>
        function_objects (snd (wrap env True f w)) f = function_objects w f)"
proof (intro conjI impI allI)
  assume "(co_flags (function_objects w f) AND CO_NESTED) \<noteq> 0 \<or>
    co_freevars (function_objects w f) \<noteq> [] \<or>
    co_name (function_objects w f) = ''<lambda>'' \<or>
    co_filename (function_objects w f) = ''<string>''"
  then have "\<exists>msg. uncompile env (function_objects w f) = Inl (Unsupported msg)"
    by (auto simp: uncompile_def)
  then show "\<exists>msg. wrap env True f w = (Inl (Unsupported msg), w)"
    by (auto simp: wrap_def)
next
  assume "getsourcelines env (function_objects w f) = None"
  then have "(\<exists>msg. uncompile env (function_objects w f) = Inl (Unsupported msg)) \<or>
             uncompile env (function_objects w f) = Inl (NoSource ''source code not available'')"
    by (auto simp: uncompile_def)
  then show "(\<exists>msg. wrap env True f w = (Inl (Unsupported msg), w)) \<or>
             wrap env True f w = (Inl (NoSource ''source code not available''), w)"
    by (auto simp: wrap_def)
next
  fix e
  assume "fst (wrap env True f w) = Inl e"
  then show "snd (wrap env True f w) = w"
    by (rule wrap_failure_frame)
next
  fix e
  assume "fst (wrap env True f w) = Inl e"
  then show "function_objects (snd (wrap env True f w)) f = function_objects w f"
    by (simp add: wrap_failure_frame)
qed

theorem wrap_rejects_unsupported_witness:
  "(\<exists>msg. wrap example_env True 1 example_world = (Inl (Unsupported msg), example_world))
   \<and> wrap example_env True 2 example_world
       = (Inl (NoSource ''source code not available''), example_world)
   \<and> function_objects (snd (wrap example_env True 2 example_world)) 2 = example_nosource"
proof -
  have 1: "co_name (function_objects example_world 1) = ''<lambda>''"
    by (simp add: example_world_def example_lambda_def)
  have 2: "getsourcelines example_env (function_objects example_world 2) = None"
    by (simp add: example_world_def example_env_def example_nosource_def)
  have 3: "\<not> (\<exists>msg. wrap example_env True 2 example_world
                      = (Inl (Unsupported msg), example_world))"
    by (simp add: wrap_def uncompile_def example_world_def example_env_def
          example_nosource_def CO_NESTED_def)
  have 4: "function_objects example_world 2 = example_nosource"
    by (simp add: example_world_def)
  from wrap_rejects_unsupported [of example_world 2 example_env] 2 3
  have 5: "wrap example_env True 2 example_world
             = (Inl (NoSource ''source code not available''), example_world)"
    and 6: "\<forall>e. fst (wrap example_env True 2 example_world) = Inl e \<longrightarrow>
        snd (wrap example_env True 2 example_world) = example_world \<and>
        function_objects (snd (wrap example_env True 2 example_world)) 2
          = function_objects example_world 2"
    by blast+
  from 5 6 have 7: "function_objects (snd (wrap example_env True 2 example_world)) 2
                      = function_objects example_world 2"
    by simp
  show ?thesis
    using wrap_rejects_unsupported [of example_world 1 example_env] 1 4 5 7
    by simp
qed

text \<open>
  C10. When the decorator with \<open>auto_name\<close> succeeds, the template it returns wraps the
  function object it was given, and that object's code is now the code that \<open>recompile\<close>
  returned for the transformed tree; nothing else in the store has changed.
\<close>

theorem wrap_patches_function:
  assumes "wrap env True f w = (Inr t, w')"
  shows "func t = f \<and>
         (\<exists>unc tree tree1 c.
            uncompile env (function_objects w f) = Inr unc \<and>
            parse_snippet env (u_source unc) (u_filename unc) (u_mode unc) (u_flags unc)
              (u_firstlineno unc) = Inr tree \<and>
            autoname_visit env tree = Inr tree1 \<and>
            recompile env (SrcTree (fix_missing_locations env tree1)) (u_filename unc)
              (u_mode unc) (u_flags unc) (u_firstlineno unc) (u_privateprefix unc) = Inr c \<and>
            w' = w\<lparr>function_objects := (function_objects w)(f := c)\<rparr> \<and>
            function_objects w' (func t) = c)"
  using assms by (auto simp: wrap_def split: sum.splits)

theorem wrap_patches_function_witness:
  "wrap example_env True 0 example_world =
     (Inr (ModelTemplate 0),
      example_world\<lparr>function_objects :=
         (function_objects example_world)(0 := example_recompiled)\<rparr>)
   \<and> func (ModelTemplate 0) = 0
   \<and> function_objects (snd (wrap example_env True 0 example_world)) 0 = example_recompiled
   \<and> function_objects example_world 0 \<noteq> example_recompiled"
proof -
  have "co_code example_body \<noteq> co_code example_recompiled"
    by (simp add: example_body_def example_recompiled_def)
  then have "function_objects example_world 0 \<noteq> example_recompiled"
    by (auto simp: example_world_def)
  then show ?thesis
    using wrap_patches_function [OF example_wrap] example_wrap by auto
qed

section \<open>Properties of ModelTemplate and Model\<close>

subsection \<open>Running a template function under a context\<close>

lemma run_forward:
  "context_stack w = c # st \<Longrightarrow> contexts w c = Forward vs \<Longrightarrow>
   run p w = (fwd_result p, w\<lparr>contexts := (contexts w)(c := Forward (vs @ fwd_vars p))\<rparr>)"
proof (induction p arbitrary: w vs)
  case Return
  then show ?case by (simp add: fun_upd_idem)
next
  case (Raise e)
  then show ?case by (simp add: fun_upd_idem)
next
  case (NewRV n sample logp k)
  let ?v = "\<lparr>rv_name = n, rv_value = sample, rv_logp = logp\<rparr>"
  let ?w = "w\<lparr>contexts := (contexts w)(c := Forward (vs @ [?v]))\<rparr>"
  have "run (k sample) ?w =
          (fwd_result (k sample),
           ?w\<lparr>contexts := (contexts ?w)(c := Forward ((vs @ [?v]) @ fwd_vars (k sample)))\<rparr>)"
    using NewRV.prems by (intro NewRV.IH) (simp_all add: rangeI)
  then show ?case
    using NewRV.prems
    by (simp add: Let_def) (rule world.equality; simp add: fun_eq_iff)
qed

lemma position_less: "position P xs = Some i \<Longrightarrow> i < length xs"
  by (induction xs arbitrary: i) (auto split: if_splits)

lemma run_inference:
  "context_stack w = c # st \<Longrightarrow> contexts w c = Inference vs ev pv \<Longrightarrow> length ev = length pv \<Longrightarrow>
   run p w = (inf_result ev pv p,
              w\<lparr>contexts := (contexts w)(c := Inference (vs @ inf_vars ev pv p) ev pv)\<rparr>)"
proof (induction p arbitrary: w vs)
  case Return
  then show ?case by (simp add: fun_upd_idem)
next
  case (Raise e)
  then show ?case by (simp add: fun_upd_idem)
next
  case (NewRV n sample logp k)
  let ?x = "bound_value ev pv n sample"
  let ?v = "\<lparr>rv_name = n, rv_value = ?x, rv_logp = logp\<rparr>"
  let ?w = "w\<lparr>contexts := (contexts w)(c := Inference (vs @ [?v]) ev pv)\<rparr>"
  have add: "add_variable (Inference vs ev pv) n sample logp = Inr (?v, Inference (vs @ [?v]) ev pv)"
    using NewRV.prems(3)
    by (auto simp: bound_value_def Let_def split: option.splits dest: position_less)
  have "run (k ?x) ?w =
          (inf_result ev pv (k ?x),
           ?w\<lparr>contexts := (contexts ?w)(c := Inference ((vs @ [?v]) @ inf_vars ev pv (k ?x)) ev pv)\<rparr>)"
    using NewRV.prems by (intro NewRV.IH) (simp_all add: rangeI)
  then show ?case
    using NewRV.prems
    by (simp add: add del: add_variable.simps) (rule world.equality; simp add: fun_eq_iff)
qed


lemma configure_result:
  "configure env t args kwargs w =
     ((case fwd_result (exec_code env (function_objects w (func t)) (args, kwargs)) of
         Inl e \<Rightarrow> Inl e
       | Inr u \<Rightarrow> Inr (Suc (Suc (next_id w)))),
      w\<lparr>contexts := (contexts w)(next_id w :=
           Forward (fwd_vars (exec_code env (function_objects w (func t)) (args, kwargs)))),
        dicts := (dicts w)(Suc (next_id w) := Map.empty),
        models := (models w)(Suc (Suc (next_id w)) :=
           \<lparr>template = t, template_args = (args, kwargs), forward_context = next_id w,
            observations = Suc (next_id w)\<rparr>),
        next_id := Suc (Suc (Suc (next_id w))),
        calls := calls w @ [(func t, (args, kwargs), next_id w # context_stack w)]\<rparr>)"
proof -
  let ?c = "next_id w"
  let ?p = "exec_code env (function_objects w (func t)) (args, kwargs)"
  let ?m = "\<lparr>template = t, template_args = (args, kwargs), forward_context = ?c,
            observations = Suc ?c\<rparr>"
  let ?w3 = "w\<lparr>contexts := (contexts w)(?c := Forward []),
               context_stack := ?c # context_stack w,
               dicts := (dicts w)(Suc ?c := Map.empty),
               models := (models w)(Suc (Suc ?c) := ?m),
               next_id := Suc (Suc (Suc ?c)),
               calls := calls w @ [(func t, (args, kwargs), ?c # context_stack w)]\<rparr>"
  have ev: "evaluate env (Suc (Suc ?c))
              (snd (new_Model t ?c (args, kwargs)
                 (enter ?c (w\<lparr>contexts := (contexts w)(?c := ForwardContext), next_id := Suc ?c\<rparr>))))
            = run ?p ?w3"
    by (simp add: evaluate_def new_Model_def enter_def ForwardContext_def Let_def)
  have run: "run ?p ?w3 = (fwd_result ?p, ?w3\<lparr>contexts := (contexts ?w3)(?c := Forward ([] @ fwd_vars ?p))\<rparr>)"
    by (rule run_forward [where st = "context_stack w"]) simp_all
  have nm: "fst (new_Model t ?c (args, kwargs)
                 (enter ?c (w\<lparr>contexts := (contexts w)(?c := ForwardContext), next_id := Suc ?c\<rparr>)))
            = Suc (Suc ?c)"
    by (simp add: new_Model_def enter_def Let_def)
  show ?thesis
    using ev run nm
    by (auto simp: configure_def Let_def split_beta exit_def split: sum.splits
          intro!: world.equality)
qed


lemma log_prob_result:
  assumes "length args = length (vars (contexts w (forward_context (models w self))))"
  shows "log_prob env self args w =
     ((case inf_result (map PyRV (vars (contexts w (forward_context (models w self))))) args
              (exec_code env (function_objects w (func (template (models w self))))
                 (template_args (models w self))) of
         Inl e \<Rightarrow> Inl e
       | Inr u \<Rightarrow>
           Inr (foldl (+) 0 (map (\<lambda>var. reduce_sum (log_prob_of var))
                  (inf_vars (map PyRV (vars (contexts w (forward_context (models w self))))) args
                     (exec_code env (function_objects w (func (template (models w self))))
                        (template_args (models w self))))))),
      w\<lparr>contexts := (contexts w)(next_id w :=
           Inference
             (inf_vars (map PyRV (vars (contexts w (forward_context (models w self))))) args
                (exec_code env (function_objects w (func (template (models w self))))
                   (template_args (models w self))))
             (map PyRV (vars (contexts w (forward_context (models w self))))) args),
        next_id := Suc (next_id w),
        calls := calls w @ [(func (template (models w self)), template_args (models w self),
                             next_id w # context_stack w)]\<rparr>)"
proof -
  let ?c = "next_id w"
  let ?m = "models w self"
  let ?ev = "map PyRV (vars (contexts w (forward_context ?m)))"
  let ?p = "exec_code env (function_objects w (func (template ?m))) (template_args ?m)"
  let ?w3 = "w\<lparr>contexts := (contexts w)(?c := Inference [] ?ev args),
               next_id := Suc ?c,
               context_stack := ?c # context_stack w,
               calls := calls w @ [(func (template ?m), template_args ?m, ?c # context_stack w)]\<rparr>"
  have ic: "InferenceContext args ?ev = Inr (Inference [] ?ev args)"
    using assms by (simp add: InferenceContext_def)
  have ev: "evaluate env self
              (enter ?c (w\<lparr>contexts := (contexts w)(?c := Inference [] ?ev args), next_id := Suc ?c\<rparr>))
            = run ?p ?w3"
    by (simp add: evaluate_def enter_def Let_def)
  have run: "run ?p ?w3 = (inf_result ?ev args ?p,
               ?w3\<lparr>contexts := (contexts ?w3)(?c := Inference ([] @ inf_vars ?ev args ?p) ?ev args)\<rparr>)"
    using assms by (intro run_inference [where st = "context_stack w"]) simp_all
  show ?thesis
    using ev run
    by (auto simp: log_prob_def ic Let_def split_beta exit_def split: sum.splits
          intro!: world.equality)
qed

lemma foldl_upd_map_of:
  "foldl (\<lambda>d v. d(f v \<mapsto> g v)) m xs = m ++ map_of (rev (map (\<lambda>v. (f v, g v)) xs))"
proof (induction xs arbitrary: m)
  case Nil
  show ?case by simp
next
  case (Cons a xs)
  have "foldl (\<lambda>d v. d(f v \<mapsto> g v)) m (a # xs)
          = foldl (\<lambda>d v. d(f v \<mapsto> g v)) (m(f a \<mapsto> g a)) xs"
    by (simp only: foldl_Cons)
  also have "\<dots> = m(f a \<mapsto> g a) ++ map_of (rev (map (\<lambda>v. (f v, g v)) xs))"
    by (rule Cons.IH)
  also have "m(f a \<mapsto> g a) = m ++ map_of [(f a, g a)]"
    by simp
  finally show ?case
    by (simp only: map_add_assoc map_of_append rev.simps list.map)
qed

lemma forward_sample_result:
  "forward_sample self args kwargs w =
     (map_of (rev (map (\<lambda>var. (rv_name var, as_tensor var))
                 (vars (contexts w (forward_context (models w self)))))), w)"
  by (simp add: forward_sample_def Let_def enter_def exit_def foldl_upd_map_of)

lemma observe_result:
  "observe self kwargs w =
     (next_id w,
      w\<lparr>models := (models w)(next_id w := models w self),
        next_id := Suc (next_id w),
        dicts := (dicts w)(observations (models w self) :=
                   dicts w (observations (models w self)) ++ kwargs)\<rparr>)"
  by (simp add: observe_def Let_def)

lemma example_configure:
  "configure example_env (ModelTemplate 0) [] Map.empty example_world =
     (Inr 5,
      example_world\<lparr>contexts := (contexts example_world)(3 := Forward [var_a, var_b]),
        dicts := (dicts example_world)(4 := Map.empty),
        models := (models example_world)(5 :=
           \<lparr>template = ModelTemplate 0, template_args = ([], Map.empty), forward_context = 3,
            observations = 4\<rparr>),
        next_id := 6,
        calls := [(0, ([], Map.empty), [3])]\<rparr>)"
proof -
  have n: "next_id example_world = 3" "context_stack example_world = []"
    "calls example_world = []" "function_objects example_world 0 = example_body"
    by (simp_all add: example_world_def)
  have p: "exec_code example_env example_body ([], Map.empty) = example_prog"
    by (simp add: example_env_def example_body_def)
  have r: "fwd_result example_prog = Inr ()" "fwd_vars example_prog = [var_a, var_b]"
    by (simp_all add: example_prog_def var_a_def var_b_def)
  show ?thesis
    by (simp add: configure_result n p r)
qed

lemma example_configured_eq:
  "example_configured =
      example_world\<lparr>contexts := (contexts example_world)(3 := Forward [var_a, var_b]),
        dicts := (dicts example_world)(4 := Map.empty),
        models := (models example_world)(5 :=
           \<lparr>template = ModelTemplate 0, template_args = ([], Map.empty), forward_context = 3,
            observations = 4\<rparr>),
        next_id := 6,
        calls := [(0, ([], Map.empty), [3])]\<rparr>"
  by (simp add: example_configured_def example_configure)

lemma example_configured_sel:
  "models example_configured 5 =
     \<lparr>template = ModelTemplate 0, template_args = ([], Map.empty), forward_context = 3,
      observations = 4\<rparr>"
  "contexts example_configured 3 = Forward [var_a, var_b]"
  "dicts example_configured 4 = Map.empty"
  "next_id example_configured = 6"
  "context_stack example_configured = []"
  "calls example_configured = [(0, ([], Map.empty), [3])]"
  "function_objects example_configured 0 = example_body"
  by (simp_all add: example_configured_eq example_world_def)

lemma example_forward_vars: "forward_vars example_configured 5 = [var_a, var_b]"
  by (simp add: forward_vars_def example_configured_sel)

lemma foldl_plus_sum_list: "foldl (+) (a :: real) xs = a + sum_list xs"
  by (induction xs arbitrary: a) simp_all

lemma example_template_run: "template_run example_env example_configured 5 = example_prog"
  by (simp add: template_run_def example_configured_sel example_env_def example_body_def)

lemma example_bound:
  "bound_value [PyRV var_a, PyRV var_b] [2, 5] ''a'' 1 = 2"
  "bound_value [PyRV var_a, PyRV var_b] [2, 5] ''b'' 2 = 5"
  by (simp_all add: bound_value_def var_a_def var_b_def)

subsection \<open>configure\<close>

text \<open>
  C9. When the template function returns, \<open>configure\<close> returns a new Model that holds
  the template, the arguments and a new Forward Context. The template function was called
  exactly once, with these arguments, while that context was on top of the stack; the stack
  is afterwards what it was; and the context, to which the Model refers, holds the
  variables the function constructed, in construction order.
\<close>

theorem configure_builds_model:
  assumes "fwd_result (exec_code env (function_objects w (func t)) (args, kwargs)) = Inr ()"
  shows "configure env t args kwargs w =
     (Inr (Suc (Suc (next_id w))),
      w\<lparr>contexts := (contexts w)(next_id w :=
           Forward (fwd_vars (exec_code env (function_objects w (func t)) (args, kwargs)))),
        dicts := (dicts w)(Suc (next_id w) := Map.empty),
        models := (models w)(Suc (Suc (next_id w)) :=
           \<lparr>template = t, template_args = (args, kwargs), forward_context = next_id w,
            observations = Suc (next_id w)\<rparr>),
        next_id := Suc (Suc (Suc (next_id w))),
        calls := calls w @ [(func t, (args, kwargs), next_id w # context_stack w)]\<rparr>)"
  using assms by (simp add: configure_result)

theorem configure_builds_model_witness:
  "configure example_env (ModelTemplate 0) [] Map.empty example_world =
     (Inr 5,
      example_world\<lparr>contexts := (contexts example_world)(3 := Forward [var_a, var_b]),
        dicts := (dicts example_world)(4 := Map.empty),
        models := (models example_world)(5 :=
           \<lparr>template = ModelTemplate 0, template_args = ([], Map.empty), forward_context = 3,
            observations = 4\<rparr>),
        next_id := 6,
        calls := [(0, ([], Map.empty), [3])]\<rparr>)"
proof -
  have n: "next_id example_world = 3" "context_stack example_world = []"
    "calls example_world = []" "function_objects example_world 0 = example_body"
    by (simp_all add: example_world_def)
  have p: "exec_code example_env example_body ([], Map.empty) = example_prog"
    by (simp add: example_env_def example_body_def)
  have r: "fwd_result example_prog = Inr ()" "fwd_vars example_prog = [var_a, var_b]"
    by (simp_all add: example_prog_def var_a_def var_b_def)
  show ?thesis
    using configure_builds_model [of example_env example_world "ModelTemplate 0" "[]" Map.empty]
    by (simp add: n p r)
qed

subsection \<open>forward\_sample\<close>

text \<open>
  C4. \<open>forward_sample\<close> leaves the store as it was, so it calls no template function
  (the call log is unchanged), whatever its arguments. It returns the map built from the
  variables of the Model's Forward Context: its keys are their names, and when the names
  are distinct every variable's name is mapped to that variable's realized value.
\<close>

theorem forward_sample_reads:
  "forward_sample self args kwargs w =
     (map_of (rev (map (\<lambda>var. (rv_name var, as_tensor var)) (forward_vars w self))), w)
   \<and> calls (snd (forward_sample self args kwargs w)) = calls w
   \<and> dom (fst (forward_sample self args kwargs w)) = rv_name ` set (forward_vars w self)
   \<and> (distinct (map rv_name (forward_vars w self)) \<longrightarrow>
        (\<forall>var \<in> set (forward_vars w self).
           fst (forward_sample self args kwargs w) (rv_name var) = Some (as_tensor var)))"
proof -
  let ?ps = "map (\<lambda>var. (rv_name var, as_tensor var)) (forward_vars w self)"
  have eq: "forward_sample self args kwargs w = (map_of (rev ?ps), w)"
    by (simp add: forward_sample_result forward_vars_def)
  have d: "dom (map_of (rev ?ps)) = rv_name ` set (forward_vars w self)"
    by (simp add: dom_map_of_conv_image_fst image_image)
  have v: "map_of (rev ?ps) (rv_name var) = Some (as_tensor var)"
    if "distinct (map rv_name (forward_vars w self))" and "var \<in> set (forward_vars w self)" for var
  proof (rule map_of_is_SomeI)
    show "distinct (map fst (rev ?ps))"
      using that(1) by (simp add: rev_map [symmetric] comp_def)
    show "(rv_name var, as_tensor var) \<in> set (rev ?ps)"
      using that(2) by auto
  qed
  show ?thesis
    using d v by (simp add: eq)
qed

theorem forward_sample_reads_witness:
  "distinct (map rv_name (forward_vars example_configured 5))
   \<and> fst (forward_sample 5 [PyNum 7] Map.empty example_configured) ''a'' = Some 1
   \<and> fst (forward_sample 5 [PyNum 7] Map.empty example_configured) ''b'' = Some 2
   \<and> snd (forward_sample 5 [PyNum 7] Map.empty example_configured) = example_configured"
proof -
  have d: "distinct (map rv_name (forward_vars example_configured 5))"
    by (simp add: example_forward_vars var_a_def var_b_def)
  have a: "var_a \<in> set (forward_vars example_configured 5)"
    and b: "var_b \<in> set (forward_vars example_configured 5)"
    by (simp_all add: example_forward_vars)
  show ?thesis
    using forward_sample_reads [of 5 "[PyNum 7]" Map.empty example_configured] d a b
    by (auto simp: var_a_def var_b_def as_tensor_def)
qed

subsection \<open>The Inference Context and the log-probability function\<close>

text \<open>
  C3. Constructing an Inference Context from expected variables and provided values of
  different lengths fails with \<open>ContextMismatch\<close>; so does the log-probability function
  on a tuple whose length is not that of the Forward Context's variable list, before it
  evaluates anything: the store is unchanged.
\<close>

theorem inference_context_mismatch:
  "(length expected \<noteq> length provided \<longrightarrow>
      InferenceContext provided expected = Inl ContextMismatch)
   \<and> (length args \<noteq> length (forward_vars w self) \<longrightarrow>
        make_log_prob_function env self args w = (Inl ContextMismatch, w))"
  by (auto simp: InferenceContext_def make_log_prob_function_def log_prob_def forward_vars_def)

theorem inference_context_mismatch_witness:
  "InferenceContext [1, 2, 3] [PyStr ''a'', PyStr ''b''] = Inl ContextMismatch
   \<and> make_log_prob_function example_env 5 [1, 2, 3] example_configured
       = (Inl ContextMismatch, example_configured)"
  using inference_context_mismatch [of "[PyStr ''a'', PyStr ''b'']" "[1, 2, 3]" "[1, 2, 3]"
      example_configured 5 example_env]
  by (simp add: example_forward_vars)

text \<open>
  C2, as amended. On a tuple of the length of the Forward Context's variable list, and
  when the template function returns, the log-probability function opens a new Inference
  Context whose \<open>expected_vars\<close> is the list of the variables captured by the Forward
  Context (the variables, not their names) and whose \<open>provided_values\<close> is the tuple,
  calls the template function once with that context on top of the stack, and returns the
  sum of the log-probabilities of the variables that context captured.
\<close>

theorem log_prob_sums_captured:
  assumes "length args = length (forward_vars w self)"
    and "inf_result (map PyRV (forward_vars w self)) args (template_run env w self) = Inr ()"
  shows "make_log_prob_function env self args w =
     (Inr (sum_list (map (\<lambda>var. reduce_sum (log_prob_of var))
             (inf_vars (map PyRV (forward_vars w self)) args (template_run env w self)))),
      w\<lparr>contexts := (contexts w)(next_id w :=
           Inference (inf_vars (map PyRV (forward_vars w self)) args (template_run env w self))
             (map PyRV (forward_vars w self)) args),
        next_id := Suc (next_id w),
        calls := calls w @ [(func (template (models w self)), template_args (models w self),
                             next_id w # context_stack w)]\<rparr>)"
  using assms
  by (simp add: make_log_prob_function_def log_prob_result foldl_plus_sum_list
        forward_vars_def template_run_def)

theorem log_prob_sums_captured_witness:
  "length [2, 5 :: real] = length (forward_vars example_configured 5)
   \<and> fst (make_log_prob_function example_env 5 [2, 5] example_configured) = Inr 9
   \<and> contexts (snd (make_log_prob_function example_env 5 [2, 5] example_configured)) 6
       = Inference [var_a\<lparr>rv_value := 2\<rparr>, var_b\<lparr>rv_value := 5\<rparr>]
           [PyRV var_a, PyRV var_b] [2, 5]"
proof -
  have l: "length [2, 5 :: real] = length (forward_vars example_configured 5)"
    by (simp add: example_forward_vars)
  have r: "inf_result (map PyRV (forward_vars example_configured 5)) [2, 5]
             (template_run example_env example_configured 5) = Inr ()"
    by (simp add: example_forward_vars example_template_run example_prog_def example_bound)
  have v: "inf_vars [PyRV var_a, PyRV var_b] [2, 5] example_prog
           = [var_a\<lparr>rv_value := 2\<rparr>, var_b\<lparr>rv_value := 5\<rparr>]"
    by (simp add: example_prog_def example_bound) (simp add: var_a_def var_b_def)
  note e = log_prob_sums_captured [OF l r,
      unfolded example_forward_vars example_template_run list.map v]
  show ?thesis
    using e l
    by (simp add: example_configured_sel reduce_sum_def log_prob_of_def
          var_a_def var_b_def logp_a_def logp_b_def)
qed

theorem log_prob_expected_names_counterexample:
  "expected_vars (contexts (snd (make_log_prob_function example_env 5 [2, 5] example_configured)) 6)
     \<noteq> map PyStr (map rv_name (forward_vars example_configured 5))"
proof -
  have l: "length [2, 5 :: real] = length (forward_vars example_configured 5)"
    by (simp add: example_forward_vars)
  have "contexts (snd (make_log_prob_function example_env 5 [2, 5] example_configured)) 6
          = Inference (inf_vars (map PyRV (forward_vars example_configured 5)) [2, 5]
                         (template_run example_env example_configured 5))
              [PyRV var_a, PyRV var_b] [2, 5]"
    using l
    by (simp add: make_log_prob_function_def log_prob_result example_configured_sel
          forward_vars_def template_run_def)
  then show ?thesis
    by (simp add: example_forward_vars)
qed

subsection \<open>observe\<close>

text \<open>
  C1. \<open>observe\<close> on the Model just configured (object 5, with an empty observation
  dictionary) and \<^verbatim>\<open>y = 1\<close>: the Model returned is a new object, 6, but it holds the
  same dictionary as the original, and the original's observation map now maps \<^verbatim>\<open>y\<close>.
\<close>

theorem observe_mutates_original:
  "fst (observe 5 [''y'' \<mapsto> PyNum 1] example_configured) = 6
   \<and> dicts example_configured (observations (models example_configured 5)) = Map.empty
   \<and> dicts (snd (observe 5 [''y'' \<mapsto> PyNum 1] example_configured))
        (observations (models (snd (observe 5 [''y'' \<mapsto> PyNum 1] example_configured)) 5))
       = [''y'' \<mapsto> PyNum 1]
   \<and> observations (models (snd (observe 5 [''y'' \<mapsto> PyNum 1] example_configured)) 6)
       = observations (models (snd (observe 5 [''y'' \<mapsto> PyNum 1] example_configured)) 5)"
  by (simp add: observe_result example_configured_sel)

end
